theory Spec2Isabelle
  imports Complex_Main
begin

section \<open>Data model\<close>

text \<open>
  The class \<open>SupabaseRAG\<close> of \<open>rag_supabase.py\<close> talks to three external services: an
  embedding provider, a table \<open>documents\<close> of a remote store, and a streaming language
  model. Their replies are not computed by the program, so they are fields of a record
  \<open>world\<close>; the table itself and the sequence of external calls performed so far are the
  program's state.

  Python strings are modelled as \<open>string\<close>; the one non-ASCII character of the program
  (the book emoji of the sources header) is written as its UTF-8 bytes. Floating-point
  numbers (embedding components, the threshold \<open>0.0\<close>) are modelled as the rational numbers
  they denote; a similarity score, the one number the program prints, also keeps its sign
  bit. Calls of \<open>print\<close> are left out, except the one whose format
  specification can raise (line 139).
\<close>

type_synonym embedding = "rat list"

text \<open>Exceptions: whatever a collaborator or the program raises; \<open>except Exception\<close> catches all.\<close>

datatype exn =
    ProviderError string
  | StorageError string
  | ValueError string
  | KeyError string
  | JSONDecodeError string

text \<open>Values found in a metadata dictionary, and what \<open>str\<close> makes of them in an f-string.\<close>

datatype jval = JNull | JBool bool | JInt int | JStr string

text \<open>A loaded and split unit (\<open>Document\<close> of the loader library): \<open>page_content\<close>, \<open>metadata\<close>.\<close>

record chunk =
  page_content :: string
  chunk_metadata :: "(string \<times> jval) list"

text \<open>One element of \<open>insert_data\<close>: the dictionary with keys \<open>content\<close>, \<open>metadata\<close>, \<open>embedding\<close>.\<close>

record insert_row =
  ins_content :: string
  ins_metadata :: string
  ins_embedding :: embedding

text \<open>A stored record: the inserted columns and the identifier the store assigns.\<close>

record row =
  row_id :: int
  row_content :: string
  row_metadata :: string
  row_embedding :: embedding

text \<open>
  A finite Python number, as the format specification \<open>.2f\<close> sees it: the sign bit and the
  absolute value (the second component is read through \<open>abs\<close>). A float has a negative
  zero, which is printed with its sign; the integer \<open>0\<close> is \<open>PyNum False 0\<close>.
\<close>

datatype pynum = PyNum bool rat

text \<open>
  A row returned by the remote procedure \<open>match_documents\<close>. The program reads
  \<open>doc['content']\<close>, \<open>doc['metadata']\<close> and \<open>doc.get('similarity', ...)\<close>: only the
  similarity may be absent.
\<close>

record doc =
  doc_content :: string
  doc_metadata :: string
  doc_similarity :: "pynum option"

text \<open>The external calls, in the order the program issues them.\<close>

datatype call =
    EmbedQuery string
  | SelectCount
  | RpcMatchDocuments embedding rat int
  | InsertBatch "insert_row list"
  | DeleteNeqId int
  | LlmStream string string string

record state =
  rows :: "row list"
  next_id :: int
  calls :: "call list"

text \<open>
  The replies of the collaborators. The embedding provider's reply may differ from call to
  call, so it also depends on the number of external calls made before it. A store request
  either succeeds or raises; a failed batch insert may leave the first \<open>n\<close> rows behind (the
  store gives no rollback guarantee). \<open>astream\<close> gives the fragments the model streams for
  a prompt template and its two inputs, and the exception that ends the stream, if any.
  \<open>json_dumps\<close> and \<open>json_loads\<close> are the functions of Python's \<open>json\<close> module, on
  dictionaries.
\<close>

record world =
  embed_query :: "nat \<Rightarrow> string \<Rightarrow> exn + embedding"
  select_count_fault :: "exn option"
  match_documents :: "embedding \<Rightarrow> rat \<Rightarrow> int \<Rightarrow> row list \<Rightarrow> exn + doc list"
  insert_fault :: "(exn \<times> nat) option"
  delete_fault :: "exn option"
  astream :: "string \<Rightarrow> string \<Rightarrow> string \<Rightarrow> string list \<times> exn option"
  json_dumps :: "(string \<times> jval) list \<Rightarrow> string"
  json_loads :: "string \<Rightarrow> exn + (string \<times> jval) list"

section \<open>The store\<close>

definition record_call :: "call \<Rightarrow> state \<Rightarrow> state" where
  "record_call c s = s\<lparr>calls := calls s @ [c]\<rparr>"

text \<open>The store appends the rows of a batch, giving each the next identifier.\<close>

fun store_rows :: "insert_row list \<Rightarrow> state \<Rightarrow> state" where
  "store_rows [] s = s"
| "store_rows (d # ds) s =
     store_rows ds
       (s\<lparr>rows := rows s @ [\<lparr>row_id = next_id s, row_content = ins_content d,
                             row_metadata = ins_metadata d, row_embedding = ins_embedding d\<rparr>],
          next_id := next_id s + 1\<rparr>)"

text \<open>\<open>self.supabase.table('documents').insert(insert_data).execute()\<close>\<close>

definition table_insert_execute :: "world \<Rightarrow> insert_row list \<Rightarrow> state \<Rightarrow> (exn + unit) \<times> state" where
  "table_insert_execute w insert_data s =
     (let s1 = record_call (InsertBatch insert_data) s in
      case insert_fault w of
        None \<Rightarrow> (Inr (), store_rows insert_data s1)
      | Some (e, n) \<Rightarrow> (Inl e, store_rows (take n insert_data) s1))"

text \<open>\<open>self.supabase.table('documents').select('id', count='exact').execute()\<close>\<close>

definition table_select_count_execute :: "world \<Rightarrow> state \<Rightarrow> (exn + nat) \<times> state" where
  "table_select_count_execute w s =
     (let s1 = record_call SelectCount s in
      case select_count_fault w of
        None \<Rightarrow> (Inr (length (rows s1)), s1)
      | Some e \<Rightarrow> (Inl e, s1))"

text \<open>\<open>self.supabase.rpc('match_documents', {...}).execute()\<close>\<close>

definition rpc_match_documents_execute ::
  "world \<Rightarrow> embedding \<Rightarrow> rat \<Rightarrow> int \<Rightarrow> state \<Rightarrow> (exn + doc list) \<times> state" where
  "rpc_match_documents_execute w query_embedding match_threshold match_count s =
     (let s1 = record_call (RpcMatchDocuments query_embedding match_threshold match_count) s in
      (match_documents w query_embedding match_threshold match_count (rows s1), s1))"

text \<open>
  \<open>self.supabase.table('documents').delete().neq('id', v).execute()\<close>: the rows whose
  \<open>id\<close> is not equal to \<open>v\<close> are deleted, the others stay.
\<close>

definition table_delete_neq_execute :: "world \<Rightarrow> int \<Rightarrow> state \<Rightarrow> (exn + unit) \<times> state" where
  "table_delete_neq_execute w v s =
     (let s1 = record_call (DeleteNeqId v) s in
      case delete_fault w of
        None \<Rightarrow> (Inr (), s1\<lparr>rows := filter (\<lambda>r. \<not> row_id r \<noteq> v) (rows s1)\<rparr>)
      | Some e \<Rightarrow> (Inl e, s1))"

text \<open>The number of stored records (\<open>count()\<close> in the specification).\<close>

definition count :: "state \<Rightarrow> nat" where
  "count s = length (rows s)"

section \<open>Clearing the store\<close>

text \<open>
  \<open>SupabaseRAG.clear_database\<close> (lines 194 to 202): the delete request runs inside
  \<open>try\<close>; the handler prints the exception and returns \<open>False\<close>.
\<close>

definition clear_database :: "world \<Rightarrow> state \<Rightarrow> (exn + bool) \<times> state" where
  "clear_database w s =
     (case table_delete_neq_execute w 0 s of
        (Inr result, s1) \<Rightarrow> (Inr True, s1)
      | (Inl e, s1) \<Rightarrow> (Inr False, s1))"

text \<open>\<open>str(e)\<close> of an exception whose only argument is its message.\<close>

fun str_exn :: "exn \<Rightarrow> string" where
  "str_exn (ProviderError m) = m"
| "str_exn (StorageError m) = m"
| "str_exn (ValueError m) = m"
| "str_exn (KeyError k) = [CHR 0x27] @ k @ [CHR 0x27]"
| "str_exn (JSONDecodeError m) = m"

text \<open>
  The endpoint \<open>DELETE /clear\<close> of \<open>backend.py\<close> (lines 68 to 75): it calls
  \<open>rag.clear_database()\<close>, drops the value returned and answers with success; an exception
  would become an HTTP error 500.
\<close>

datatype http_reply = HTTPException nat string | JSONReply bool string

definition clear_database_endpoint :: "world \<Rightarrow> state \<Rightarrow> http_reply \<times> state" where
  "clear_database_endpoint w s =
     (case clear_database w s of
        (Inr b, s1) \<Rightarrow> (JSONReply True ''Database cleared'', s1)
      | (Inl e, s1) \<Rightarrow> (HTTPException 500 (str_exn e), s1))"

section \<open>Ingestion\<close>

text \<open>
  The dictionary built at lines 91 to 95; \<open>chunk.metadata.get("page", 0)\<close> is the value
  under \<open>page\<close>, or \<open>0\<close> when the key is absent.
\<close>

definition build_metadata :: "string \<Rightarrow> nat \<Rightarrow> chunk \<Rightarrow> (string \<times> jval) list" where
  "build_metadata source_file i chunk =
     [(''source'', JStr source_file),
      (''chunk_index'', JInt (int i)),
      (''page'', (case map_of (chunk_metadata chunk) ''page'' of None \<Rightarrow> JInt 0 | Some p \<Rightarrow> p))]"

text \<open>
  The loop of \<open>_store_chunks\<close> (lines 85 to 101), from index \<open>i\<close> on: one embedding call
  per chunk, outside any \<open>try\<close>, then the record is appended to \<open>insert_data\<close>.
\<close>

fun store_chunks_loop ::
  "world \<Rightarrow> string \<Rightarrow> nat \<Rightarrow> chunk list \<Rightarrow> insert_row list \<Rightarrow> state
     \<Rightarrow> (exn + insert_row list) \<times> state" where
  "store_chunks_loop w source_file i [] insert_data s = (Inr insert_data, s)"
| "store_chunks_loop w source_file i (chunk # rest) insert_data s =
     (let s1 = record_call (EmbedQuery (page_content chunk)) s in
      case embed_query w (length (calls s)) (page_content chunk) of
        Inl e \<Rightarrow> (Inl e, s1)
      | Inr embedding \<Rightarrow>
          store_chunks_loop w source_file (i + 1) rest
            (insert_data @
               [\<lparr>ins_content = page_content chunk,
                 ins_metadata = json_dumps w (build_metadata source_file i chunk),
                 ins_embedding = embedding\<rparr>])
            s1)"

text \<open>
  \<open>SupabaseRAG._store_chunks\<close> (lines 81 to 109): the loop, then one batch insert inside
  \<open>try\<close>, whose handler prints and re-raises.
\<close>

definition store_chunks :: "world \<Rightarrow> chunk list \<Rightarrow> string \<Rightarrow> state \<Rightarrow> (exn + unit) \<times> state" where
  "store_chunks w chunks source_file s =
     (case store_chunks_loop w source_file 0 chunks [] s of
        (Inl e, s1) \<Rightarrow> (Inl e, s1)
      | (Inr insert_data, s1) \<Rightarrow>
          (case table_insert_execute w insert_data s1 of
             (Inr result, s2) \<Rightarrow> (Inr (), s2)
           | (Inl e, s2) \<Rightarrow> (Inl e, s2)))"

section \<open>Retrieval\<close>

text \<open>
  The loop of line 138 and 139 prints \<open>doc.get('similarity', 'N/A')\<close> with the format
  \<open>.4f\<close>: for a row without similarity the string \<open>'N/A'\<close> is formatted, which raises
  \<open>ValueError\<close>.
\<close>

fun print_similarities :: "doc list \<Rightarrow> exn + unit" where
  "print_similarities [] = Inr ()"
| "print_similarities (d # ds) =
     (case doc_similarity d of
        None \<Rightarrow> Inl (ValueError ''Unknown format code f for object of type str'')
      | Some x \<Rightarrow> print_similarities ds)"

text \<open>The body of the \<open>try\<close> of \<open>retrieve_relevant_chunks\<close> (lines 116 to 143).\<close>

definition retrieve_try :: "world \<Rightarrow> string \<Rightarrow> int \<Rightarrow> state \<Rightarrow> (exn + doc list) \<times> state" where
  "retrieve_try w question k s =
     (let s1 = record_call (EmbedQuery question) s in
      case embed_query w (length (calls s)) question of
        Inl e \<Rightarrow> (Inl e, s1)
      | Inr query_embedding \<Rightarrow>
          (case table_select_count_execute w s1 of
             (Inl e, s2) \<Rightarrow> (Inl e, s2)
           | (Inr count_result, s2) \<Rightarrow>
               (case rpc_match_documents_execute w query_embedding 0 k s2 of
                  (Inl e, s3) \<Rightarrow> (Inl e, s3)
                | (Inr data, s3) \<Rightarrow>
                    (if data \<noteq> [] then
                       (case print_similarities data of
                          Inl e \<Rightarrow> (Inl e, s3)
                        | Inr u \<Rightarrow> (Inr data, s3))
                     else (Inr [], s3)))))"

text \<open>
  \<open>SupabaseRAG.retrieve_relevant_chunks(question, k=4)\<close> (lines 111 to 149); \<open>None\<close> for
  \<open>k\<close> is the call that leaves the parameter to its default. The handler of
  \<open>except Exception\<close> returns the empty list.
\<close>

definition retrieve_relevant_chunks ::
  "world \<Rightarrow> string \<Rightarrow> int option \<Rightarrow> state \<Rightarrow> (exn + doc list) \<times> state" where
  "retrieve_relevant_chunks w question k s =
     (case retrieve_try w question (case k of None \<Rightarrow> 4 | Some k' \<Rightarrow> k') s of
        (Inr data, s1) \<Rightarrow> (Inr data, s1)
      | (Inl e, s1) \<Rightarrow> (Inr [], s1))"

section \<open>Formatting\<close>

definition digit_char :: "nat \<Rightarrow> char" where
  "digit_char d = char_of (48 + d)"

text \<open>\<open>str\<close> of a non-negative and of any integer.\<close>

fun str_nat :: "nat \<Rightarrow> string" where
  "str_nat n = (if n < 10 then [digit_char n] else str_nat (n div 10) @ [digit_char (n mod 10)])"

definition str_int :: "int \<Rightarrow> string" where
  "str_int i = (if i < 0 then ''-'' @ str_nat (nat (- i)) else str_nat (nat i))"

text \<open>What an f-string shows for a metadata value.\<close>

fun py_str :: "jval \<Rightarrow> string" where
  "py_str JNull = ''None''"
| "py_str (JBool b) = (if b then ''True'' else ''False'')"
| "py_str (JInt i) = str_int i"
| "py_str (JStr s) = s"

text \<open>Rounding to the nearest integer, ties to the even one.\<close>

definition round_half_even :: "rat \<Rightarrow> int" where
  "round_half_even x =
     (let f = \<lfloor>x\<rfloor>; d = x - of_int f in
      if d < 1 / 2 then f else if 1 / 2 < d then f + 1 else if even f then f else f + 1)"

text \<open>
  The format specification \<open>.2f\<close>: the sign of a negative number (also of a negative
  zero), the integer part, a point and two digits, of the absolute value rounded to
  hundredths.
\<close>

fun format_2f :: "pynum \<Rightarrow> string" where
  "format_2f (PyNum negative x) =
     (let n = nat (round_half_even (\<bar>x\<bar> * 100)) in
      (if negative then ''-'' else []) @ str_nat (n div 100) @ ''.'' @
      [digit_char (n mod 100 div 10), digit_char (n mod 10)])"

text \<open>\<open>sep.join(xs)\<close>\<close>

fun str_join :: "string \<Rightarrow> string list \<Rightarrow> string" where
  "str_join sep [] = []"
| "str_join sep [x] = x"
| "str_join sep (x # y # ys) = x @ sep @ str_join sep (y # ys)"

section \<open>The streaming answer\<close>

definition fallback_message :: string where
  "fallback_message =
     ''I don't have enough information to answer that question. '' @
     ''Please make sure documents are uploaded and the database is set up correctly.''"

definition template :: string where
  "template =
     ''You are a helpful AI assistant. Use the following context to answer the question.'' @
     [CHR 0x0A] @
     ''If you don't know the answer, say so. Be concise and accurate.'' @ [CHR 0x0A, CHR 0x0A] @
     ''Context:'' @ [CHR 0x0A] @ ''{context}'' @ [CHR 0x0A, CHR 0x0A] @
     ''Question: {question}'' @ [CHR 0x0A, CHR 0x0A] @ ''Answer:''"

definition sources_header :: string where
  "sources_header =
     [CHR 0x0A, CHR 0x0A, CHR 0xF0, CHR 0x9F, CHR 0x93, CHR 0x9A] @ '' **Sources:**'' @ [CHR 0x0A]"

text \<open>The f-string of line 192.\<close>

definition source_line :: "nat \<Rightarrow> jval \<Rightarrow> jval option \<Rightarrow> pynum \<Rightarrow> string" where
  "source_line i source page similarity =
     [CHR 0x0A] @ str_nat i @ ''. '' @ py_str source @ '' (page '' @
     (case page of None \<Rightarrow> ''N/A'' | Some p \<Rightarrow> py_str p) @
     '', similarity: '' @ format_2f similarity @ '')''"

text \<open>
  The loop of lines 189 to 192, from number \<open>i\<close> on: what it yields, and the exception that
  ends it, if any (\<open>json.loads\<close> may raise, and so does \<open>metadata['source']\<close> without that key).
\<close>

fun sources_loop :: "world \<Rightarrow> nat \<Rightarrow> doc list \<Rightarrow> string list \<times> exn option" where
  "sources_loop w i [] = ([], None)"
| "sources_loop w i (d # ds) =
     (case json_loads w (doc_metadata d) of
        Inl e \<Rightarrow> ([], Some e)
      | Inr metadata \<Rightarrow>
          (let similarity = (case doc_similarity d of None \<Rightarrow> PyNum False 0 | Some x \<Rightarrow> x) in
           case map_of metadata ''source'' of
             None \<Rightarrow> ([], Some (KeyError ''source''))
           | Some source \<Rightarrow>
               (case sources_loop w (i + 1) ds of
                  (yielded, raised) \<Rightarrow>
                    (source_line i source (map_of metadata ''page'') similarity # yielded,
                     raised))))"

text \<open>
  \<open>SupabaseRAG.query_stream\<close> (lines 151 to 192), an asynchronous generator: the model
  gives the values it yields, in order, the exception that ends it (\<open>None\<close> when it returns),
  and the state.
\<close>

definition query_stream :: "world \<Rightarrow> string \<Rightarrow> state \<Rightarrow> (string list \<times> exn option) \<times> state" where
  "query_stream w question s =
     (case retrieve_relevant_chunks w question (Some 3) s of
        (Inl e, s1) \<Rightarrow> (([], Some e), s1)
      | (Inr relevant_docs, s1) \<Rightarrow>
          (if relevant_docs = [] then (([fallback_message], None), s1)
           else
             (let context = str_join [CHR 0x0A, CHR 0x0A] (map doc_content relevant_docs);
                  s2 = record_call (LlmStream template context question) s1
              in case astream w template context question of
                   (fragments, Some e) \<Rightarrow> ((fragments, Some e), s2)
                 | (fragments, None) \<Rightarrow>
                     (case sources_loop w 1 relevant_docs of
                        (yielded, raised) \<Rightarrow>
                          ((fragments @ [sources_header] @ yielded, raised), s2)))))"

definition is_llm_call :: "call \<Rightarrow> bool" where
  "is_llm_call c = (case c of LlmStream t c q \<Rightarrow> True | _ \<Rightarrow> False)"

definition is_insert_call :: "call \<Rightarrow> bool" where
  "is_insert_call c = (case c of InsertBatch d \<Rightarrow> True | _ \<Rightarrow> False)"

section \<open>The answer, as the specification words it\<close>

text \<open>
  The definitions of this section do not use those of the program above: they say what the
  specification asks for, and the theorems compare the program with them.
\<close>

text \<open>The contents, in order, with a blank line between two of them.\<close>

definition blank_line_separated :: "string list \<Rightarrow> string" where
  "blank_line_separated xs =
     (case xs of
        [] \<Rightarrow> []
      | x # rest \<Rightarrow> x @ concat (map (\<lambda>y. [CHR 0x0A, CHR 0x0A] @ y) rest))"

text \<open>
  Decimal notation of a natural number: its digits, the most significant first, without
  leading zeros; \<open>decimal_value\<close> reads such a string back.
\<close>

definition digit_of :: "nat \<Rightarrow> char" where
  "digit_of d = ''0123456789'' ! d"

fun digits_lsb :: "nat \<Rightarrow> nat list" where
  "digits_lsb n = (n mod 10) # (if n < 10 then [] else digits_lsb (n div 10))"

definition decimal :: "nat \<Rightarrow> string" where
  "decimal n = map digit_of (rev (digits_lsb n))"

definition digit_value :: "char \<Rightarrow> nat" where
  "digit_value c = of_char c - 48"

definition decimal_value :: "string \<Rightarrow> nat" where
  "decimal_value t = foldl (\<lambda>a c. 10 * a + digit_value c) 0 t"

text \<open>
  The number of hundredths nearest to the absolute value of \<open>x\<close>; of two equally near ones,
  the even one.
\<close>

definition hundredths :: "rat \<Rightarrow> nat" where
  "hundredths x =
     (let y = \<bar>x\<bar> * 100; r = round y in
      nat (if of_int r - y = 1 / 2 \<and> odd r then r - 1 else r))"

text \<open>A number with two decimal places: sign, integer part, point, tenths, hundredths.\<close>

fun two_decimals :: "pynum \<Rightarrow> string" where
  "two_decimals (PyNum negative x) =
     (if negative then ''-'' else []) @ decimal (hundredths x div 100) @ ''.'' @
     [digit_of (hundredths x div 10 mod 10), digit_of (hundredths x mod 10)]"

text \<open>How a metadata value reads in the listing: a path as it is, a page as its number.\<close>

fun shown :: "jval \<Rightarrow> string" where
  "shown (JStr t) = t"
| "shown (JInt i) = (if i < 0 then ''-'' @ decimal (nat (- i)) else decimal (nat i))"
| "shown (JBool b) = (if b then ''True'' else ''False'')"
| "shown JNull = ''None''"

text \<open>
  A retrieved match can be attributed when its metadata decodes to a dictionary that has
  the key \<open>source\<close>; otherwise the listing stops at it, with the exception of the decoder
  or the \<open>KeyError\<close> of the missing key.
\<close>

definition attributable :: "world \<Rightarrow> doc \<Rightarrow> bool" where
  "attributable w d =
     (case json_loads w (doc_metadata d) of
        Inl e \<Rightarrow> False
      | Inr metadata \<Rightarrow> (case map_of metadata ''source'' of None \<Rightarrow> False | Some src \<Rightarrow> True))"

definition first_failure :: "world \<Rightarrow> doc list \<Rightarrow> exn option" where
  "first_failure w ds =
     (case ds of
        [] \<Rightarrow> None
      | d # rest \<Rightarrow>
          (case json_loads w (doc_metadata d) of
             Inl e \<Rightarrow> Some e
           | Inr metadata \<Rightarrow> Some (KeyError ''source'')))"

text \<open>
  The entry of match number \<open>i\<close>: its number, its source path, its page or \<open>N/A\<close>, and
  its similarity score with two decimal places (0 for a match without score).
\<close>

definition attribution_entry :: "world \<Rightarrow> nat \<Rightarrow> doc \<Rightarrow> string" where
  "attribution_entry w i d =
     (case json_loads w (doc_metadata d) of
        Inl e \<Rightarrow> []
      | Inr metadata \<Rightarrow>
          [CHR 0x0A] @ decimal i @ ''. '' @
          (case map_of metadata ''source'' of None \<Rightarrow> [] | Some src \<Rightarrow> shown src) @
          '' (page '' @
          (case map_of metadata ''page'' of None \<Rightarrow> ''N/A'' | Some p \<Rightarrow> shown p) @
          '', similarity: '' @
          two_decimals (case doc_similarity d of None \<Rightarrow> PyNum False 0 | Some x \<Rightarrow> x) @
          '')'')"

fun attribution_entries :: "world \<Rightarrow> nat \<Rightarrow> doc list \<Rightarrow> string list" where
  "attribution_entries w i [] = []"
| "attribution_entries w i (d # ds) = attribution_entry w i d # attribution_entries w (i + 1) ds"

text \<open>
  The identifiers of the store are assigned by the store, from a sequence of positive
  numbers: the program never sends one (lines 97 to 101).
\<close>

definition ids_assigned :: "state \<Rightarrow> bool" where
  "ids_assigned s = (0 < next_id s \<and> list_all (\<lambda>r. 0 < row_id r) (rows s))"

section \<open>Sample inputs\<close>

definition sample_loads :: "string \<Rightarrow> exn + (string \<times> jval) list" where
  "sample_loads t =
     (if t = ''meta-a''
      then Inr [(''source'', JStr ''uploads/a.txt''), (''chunk_index'', JInt 0), (''page'', JInt 0)]
      else if t = ''meta-b'' then Inr [(''source'', JStr ''uploads/b.pdf'')]
      else Inl (JSONDecodeError ''Expecting value''))"

fun sample_dumps :: "(string \<times> jval) list \<Rightarrow> string" where
  "sample_dumps [] = []"
| "sample_dumps ((k, v) # kvs) = k @ ''='' @ py_str v @ '';'' @ sample_dumps kvs"

fun sample_match :: "embedding \<Rightarrow> rat \<Rightarrow> int \<Rightarrow> row list \<Rightarrow> exn + doc list" where
  "sample_match e t k rs =
     Inr (take (nat k)
            (map (\<lambda>r. \<lparr>doc_content = row_content r, doc_metadata = row_metadata r,
                       doc_similarity = Some (PyNum False (7 / 8))\<rparr>) rs))"

definition sample_world :: world where
  "sample_world =
     \<lparr>embed_query = (\<lambda>t txt. Inr [1 / 2, 1 / 4]),
      select_count_fault = None,
      match_documents = sample_match,
      insert_fault = None,
      delete_fault = None,
      astream = (\<lambda>t c q. ([''RAG is '', ''retrieval-augmented generation.''], None)),
      json_dumps = sample_dumps,
      json_loads = sample_loads\<rparr>"

definition empty_store :: state where
  "empty_store = \<lparr>rows = [], next_id = 1, calls = []\<rparr>"

definition sample_store :: state where
  "sample_store =
     \<lparr>rows = [\<lparr>row_id = 1, row_content = ''RAG stands for Retrieval-Augmented Generation.'',
               row_metadata = ''meta-a'', row_embedding = [1 / 2, 1 / 4]\<rparr>,
              \<lparr>row_id = 2, row_content = ''Second chunk.'',
               row_metadata = ''meta-b'', row_embedding = [1 / 4, 1 / 2]\<rparr>],
      next_id = 3, calls = []\<rparr>"

definition zero_id_store :: state where
  "zero_id_store =
     \<lparr>rows = [\<lparr>row_id = 0, row_content = ''kept'', row_metadata = ''meta-a'',
               row_embedding = [1]\<rparr>,
              \<lparr>row_id = 1, row_content = ''removed'', row_metadata = ''meta-b'',
               row_embedding = [0]\<rparr>],
      next_id = 2, calls = []\<rparr>"

definition sample_chunks :: "chunk list" where
  "sample_chunks =
     [\<lparr>page_content = ''alpha'', chunk_metadata = [(''page'', JInt 2)]\<rparr>,
      \<lparr>page_content = ''beta'', chunk_metadata = []\<rparr>]"

text \<open>
  A store whose metadata column holds the texts \<open>json.dumps\<close> writes, and a decoder for
  exactly these texts; the second record has no page.
\<close>

definition json_text_a :: string where
  "json_text_a =
     ''{'' @ [CHR 0x22] @ ''source'' @ [CHR 0x22] @ '': '' @
     [CHR 0x22] @ ''uploads/a.txt'' @ [CHR 0x22] @ '', '' @
     [CHR 0x22] @ ''chunk_index'' @ [CHR 0x22] @ '': 0, '' @
     [CHR 0x22] @ ''page'' @ [CHR 0x22] @ '': 0}''"

definition json_text_b :: string where
  "json_text_b =
     ''{'' @ [CHR 0x22] @ ''source'' @ [CHR 0x22] @ '': '' @
     [CHR 0x22] @ ''uploads/b.pdf'' @ [CHR 0x22] @ '', '' @
     [CHR 0x22] @ ''chunk_index'' @ [CHR 0x22] @ '': 1}''"

definition json_sample_loads :: "string \<Rightarrow> exn + (string \<times> jval) list" where
  "json_sample_loads t =
     (if t = json_text_a
      then Inr [(''source'', JStr ''uploads/a.txt''), (''chunk_index'', JInt 0), (''page'', JInt 0)]
      else if t = json_text_b
      then Inr [(''source'', JStr ''uploads/b.pdf''), (''chunk_index'', JInt 1)]
      else Inl (JSONDecodeError ''Expecting value''))"

fun json_sample_match :: "embedding \<Rightarrow> rat \<Rightarrow> int \<Rightarrow> row list \<Rightarrow> exn + doc list" where
  "json_sample_match e t k rs =
     Inr (take (nat k)
            (map (\<lambda>r. \<lparr>doc_content = row_content r, doc_metadata = row_metadata r,
                       doc_similarity =
                         Some (if row_id r = 1 then PyNum False (7 / 8) else PyNum True (1 / 8))\<rparr>)
               rs))"

definition json_world :: world where
  "json_world =
     sample_world\<lparr>json_loads := json_sample_loads, match_documents := json_sample_match\<rparr>"

definition json_store :: state where
  "json_store =
     \<lparr>rows = [\<lparr>row_id = 1, row_content = ''RAG stands for Retrieval-Augmented Generation.'',
               row_metadata = json_text_a, row_embedding = [1 / 2, 1 / 4]\<rparr>,
              \<lparr>row_id = 2, row_content = ''Second chunk.'',
               row_metadata = json_text_b, row_embedding = [1 / 4, 1 / 2]\<rparr>],
      next_id = 3, calls = []\<rparr>"

definition json_matches :: "doc list" where
  "json_matches =
     [\<lparr>doc_content = ''RAG stands for Retrieval-Augmented Generation.'',
       doc_metadata = json_text_a, doc_similarity = Some (PyNum False (7 / 8))\<rparr>,
      \<lparr>doc_content = ''Second chunk.'', doc_metadata = json_text_b,
       doc_similarity = Some (PyNum True (1 / 8))\<rparr>]"

definition delete_down :: world where
  "delete_down = sample_world\<lparr>delete_fault := Some (StorageError ''connection refused'')\<rparr>"

definition embed_down :: world where
  "embed_down = sample_world\<lparr>embed_query := (\<lambda>t txt. Inl (ProviderError ''401 Unauthorized''))\<rparr>"

definition search_down :: world where
  "search_down =
     sample_world\<lparr>match_documents := (\<lambda>e t k rs. Inl (StorageError ''function not found'')),
                  insert_fault := Some (StorageError ''dimension mismatch'', 0)\<rparr>"

text \<open>A provider that fails on its second call.\<close>

definition embed_second_down :: world where
  "embed_second_down =
     sample_world\<lparr>embed_query :=
        (\<lambda>t txt. if t = 1 then Inl (ProviderError ''rate limit'') else Inr [1])\<rparr>"

section \<open>Basic facts about the state\<close>

lemma calls_record_call [simp]: "calls (record_call c s) = calls s @ [c]"
  by (simp add: record_call_def)

lemma rows_record_call [simp]: "rows (record_call c s) = rows s"
  by (simp add: record_call_def)

lemma next_id_record_call [simp]: "next_id (record_call c s) = next_id s"
  by (simp add: record_call_def)

lemma calls_store_rows [simp]: "calls (store_rows ds s) = calls s"
  by (induction ds arbitrary: s) simp_all

section \<open>Clearing: results\<close>

lemma clear_database_unfold:
  "clear_database w s =
     (case delete_fault w of
        None \<Rightarrow> (Inr True, (record_call (DeleteNeqId 0) s)\<lparr>rows := filter (\<lambda>r. row_id r = 0) (rows s)\<rparr>)
      | Some e \<Rightarrow> (Inr False, record_call (DeleteNeqId 0) s))"
  by (simp add: clear_database_def table_delete_neq_execute_def Let_def split: option.splits)

text \<open>
  C1, as stated, fails: with a store whose delete request raises, \<open>clear_database\<close> returns
  \<open>False\<close> as a normal value, and the endpoint answers with success.
\<close>

theorem clear_database_error_counterexample:
  "delete_fault delete_down = Some (StorageError ''connection refused'') \<and>
   fst (clear_database delete_down sample_store) = Inr False \<and>
   fst (clear_database_endpoint delete_down sample_store) = JSONReply True ''Database cleared''"
  by (simp add: clear_database_endpoint_def clear_database_unfold delete_down_def
      sample_world_def)

text \<open>
  C1, amended: when the delete request of the store raises, \<open>clear_database\<close> catches the
  exception and returns \<open>False\<close> to its caller; no exception leaves the operation.
\<close>

theorem clear_database_failure_returns_False:
  "delete_fault w = Some e \<Longrightarrow> fst (clear_database w s) = Inr False"
  by (simp add: clear_database_unfold)

theorem clear_database_failure_returns_False_witness:
  "delete_fault delete_down = Some (StorageError ''connection refused'') \<and>
   fst (clear_database delete_down zero_id_store) = Inr False"
proof -
  have h: "delete_fault delete_down = Some (StorageError ''connection refused'')"
    by (simp add: delete_down_def sample_world_def)
  from clear_database_failure_returns_False [OF h, of zero_id_store] h show ?thesis
    by simp
qed

section \<open>Retrieval: what is caught\<close>

lemma retrieve_try_calls:
  "calls (snd (retrieve_try w q k s)) =
     calls s @
     (case embed_query w (length (calls s)) q of
        Inl e \<Rightarrow> [EmbedQuery q]
      | Inr qe \<Rightarrow>
          (case select_count_fault w of
             Some e \<Rightarrow> [EmbedQuery q, SelectCount]
           | None \<Rightarrow> [EmbedQuery q, SelectCount, RpcMatchDocuments qe 0 k]))"
  by (simp add: retrieve_try_def table_select_count_execute_def
      rpc_match_documents_execute_def Let_def split: sum.splits option.splits)

lemma retrieve_relevant_chunks_snd:
  "snd (retrieve_relevant_chunks w q k s) =
     snd (retrieve_try w q (case k of None \<Rightarrow> 4 | Some k' \<Rightarrow> k') s)"
  by (simp add: retrieve_relevant_chunks_def split: prod.splits sum.splits)

lemma retrieve_relevant_chunks_fst:
  "fst (retrieve_relevant_chunks w q k s) =
     (case fst (retrieve_try w q (case k of None \<Rightarrow> 4 | Some k' \<Rightarrow> k') s) of
        Inl e \<Rightarrow> Inr [] | Inr data \<Rightarrow> Inr data)"
  by (simp add: retrieve_relevant_chunks_def split: prod.splits sum.splits)

lemma retrieve_try_embed_fails:
  "embed_query w (length (calls s)) q = Inl e \<Longrightarrow>
     retrieve_try w q k s = (Inl e, record_call (EmbedQuery q) s)"
  by (simp add: retrieve_try_def Let_def)

lemma retrieve_try_search_fails:
  "embed_query w (length (calls s)) q = Inr qe \<Longrightarrow> select_count_fault w = None \<Longrightarrow>
   match_documents w qe 0 k (rows s) = Inl e \<Longrightarrow>
     fst (retrieve_try w q k s) = Inl e"
  by (simp add: retrieve_try_def table_select_count_execute_def
      rpc_match_documents_execute_def Let_def)

text \<open>
  C2, as stated, fails: the embedding call stands inside the \<open>try\<close> of
  \<open>retrieve_relevant_chunks\<close>, so a provider failure on the question is caught and the
  caller receives the empty list.
\<close>

theorem retrieve_embed_failure_counterexample:
  "embed_query embed_down (length (calls sample_store)) ''What is RAG?'' =
     Inl (ProviderError ''401 Unauthorized'') \<and>
   fst (retrieve_relevant_chunks embed_down ''What is RAG?'' None sample_store) = Inr []"
  by (simp add: retrieve_relevant_chunks_fst retrieve_try_embed_fails embed_down_def
      sample_world_def)

text \<open>
  C2, amended: when the embedding call on the question fails, the retrieval operation
  catches the failure and returns the empty sequence to its caller, without any request to
  the store; nothing is propagated.
\<close>

theorem retrieve_embed_failure_gives_empty:
  "embed_query w (length (calls s)) question = Inl e \<Longrightarrow>
     retrieve_relevant_chunks w question k s = (Inr [], record_call (EmbedQuery question) s)"
  by (simp add: retrieve_relevant_chunks_def retrieve_try_embed_fails)

theorem retrieve_embed_failure_gives_empty_witness:
  "embed_query embed_down (length (calls empty_store)) ''Who wrote it?'' =
     Inl (ProviderError ''401 Unauthorized'') \<and>
   retrieve_relevant_chunks embed_down ''Who wrote it?'' (Some 3) empty_store =
     (Inr [], record_call (EmbedQuery ''Who wrote it?'') empty_store)"
proof -
  have h: "embed_query embed_down (length (calls empty_store)) ''Who wrote it?'' =
     Inl (ProviderError ''401 Unauthorized'')"
    by (simp add: embed_down_def sample_world_def)
  from retrieve_embed_failure_gives_empty [OF h, of "Some 3"] h show ?thesis
    by simp
qed

lemma store_chunks_insert_fails:
  "store_chunks_loop w source_file 0 chunks [] s = (Inr insert_data, s1) \<Longrightarrow>
   insert_fault w = Some (e, n) \<Longrightarrow>
     fst (store_chunks w chunks source_file s) = Inl e"
  by (simp add: store_chunks_def table_insert_execute_def Let_def)

text \<open>
  C3: an exception of the store during the similarity search is caught in the retrieval
  operation, which returns the empty list; an exception of the batch insert leaves
  \<open>_store_chunks\<close> as that same exception.
\<close>

theorem read_path_soft_write_path_hard:
  "(embed_query w (length (calls s)) question = Inr qe \<longrightarrow>
    select_count_fault w = None \<longrightarrow>
    match_documents w qe 0 (case k of None \<Rightarrow> 4 | Some k' \<Rightarrow> k') (rows s) = Inl e \<longrightarrow>
      fst (retrieve_relevant_chunks w question k s) = Inr []) \<and>
   (store_chunks_loop w source_file 0 chunks [] s = (Inr insert_data, s1) \<longrightarrow>
    insert_fault w = Some (e', n) \<longrightarrow>
      fst (store_chunks w chunks source_file s) = Inl e')"
  by (simp add: retrieve_relevant_chunks_fst retrieve_try_search_fails
      store_chunks_insert_fails)

lemma digit_char_values:
  "digit_char 0 = CHR ''0''" "digit_char 1 = CHR ''1''" "digit_char (Suc 0) = CHR ''1''"
  "digit_char (Suc (Suc 0)) = CHR ''2''"
  "digit_char 2 = CHR ''2''" "digit_char 3 = CHR ''3''" "digit_char 4 = CHR ''4''"
  "digit_char 5 = CHR ''5''" "digit_char 6 = CHR ''6''" "digit_char 7 = CHR ''7''"
  "digit_char 8 = CHR ''8''" "digit_char 9 = CHR ''9''"
  by code_simp+

lemma sample_loop:
  "store_chunks_loop search_down ''uploads/a.txt'' 0 sample_chunks [] empty_store =
     (Inr [\<lparr>ins_content = ''alpha'',
            ins_metadata = ''source=uploads/a.txt;chunk_index=0;page=2;'',
            ins_embedding = [1 / 2, 1 / 4]\<rparr>,
           \<lparr>ins_content = ''beta'',
            ins_metadata = ''source=uploads/a.txt;chunk_index=1;page=0;'',
            ins_embedding = [1 / 2, 1 / 4]\<rparr>],
      \<lparr>rows = [], next_id = 1, calls = [EmbedQuery ''alpha'', EmbedQuery ''beta'']\<rparr>)"
  by (simp add: search_down_def sample_world_def sample_chunks_def empty_store_def
      record_call_def build_metadata_def str_int_def digit_char_values)

theorem read_path_soft_write_path_hard_witness:
  "embed_query search_down (length (calls empty_store)) ''What is RAG?'' = Inr [1 / 2, 1 / 4] \<and>
   select_count_fault search_down = None \<and>
   match_documents search_down [1 / 2, 1 / 4] 0 4 (rows empty_store) =
     Inl (StorageError ''function not found'') \<and>
   fst (retrieve_relevant_chunks search_down ''What is RAG?'' None empty_store) = Inr [] \<and>
   insert_fault search_down = Some (StorageError ''dimension mismatch'', 0) \<and>
   fst (store_chunks search_down sample_chunks ''uploads/a.txt'' empty_store) =
     Inl (StorageError ''dimension mismatch'')"
proof -
  have a: "embed_query search_down (length (calls empty_store)) ''What is RAG?'' =
      Inr [1 / 2, 1 / 4]"
    by (simp add: search_down_def sample_world_def)
  have b: "select_count_fault search_down = None"
    by (simp add: search_down_def sample_world_def)
  have c: "match_documents search_down [1 / 2, 1 / 4] 0
             (case None of None \<Rightarrow> 4 | Some k' \<Rightarrow> k') (rows empty_store) =
      Inl (StorageError ''function not found'')"
    by (simp add: search_down_def sample_world_def)
  have d: "insert_fault search_down = Some (StorageError ''dimension mismatch'', 0)"
    by (simp add: search_down_def sample_world_def)
  note r = read_path_soft_write_path_hard [where w = search_down and s = empty_store
      and question = "''What is RAG?''" and qe = "[1 / 2, 1 / 4]" and k = None
      and e = "StorageError ''function not found''",
      THEN conjunct1, THEN mp, OF a, THEN mp, OF b, THEN mp, OF c]
  note i = read_path_soft_write_path_hard [THEN conjunct2, THEN mp, OF sample_loop,
      THEN mp, OF d]
  from r i a b c d show ?thesis by simp
qed

lemma retrieve_never_raises:
  "\<exists>data. fst (retrieve_relevant_chunks w q k s) = Inr data"
  by (simp add: retrieve_relevant_chunks_fst split: sum.splits)

text \<open>Every match that retrieval returns carries a similarity (line 139 raises otherwise).\<close>

lemma print_similarities_ok:
  "print_similarities docs = Inr u \<Longrightarrow> list_all (\<lambda>d. doc_similarity d \<noteq> None) docs"
  by (induction docs) (auto split: option.splits)

lemma retrieve_try_fst:
  "embed_query w (length (calls s)) q = Inr qe \<Longrightarrow> select_count_fault w = None \<Longrightarrow>
   fst (retrieve_try w q k s) =
     (case match_documents w qe 0 k (rows s) of
        Inl e \<Rightarrow> Inl e
      | Inr data \<Rightarrow>
          (if data \<noteq> [] then
             (case print_similarities data of Inl e \<Rightarrow> Inl e | Inr u \<Rightarrow> Inr data)
           else Inr []))"
  by (cases "match_documents w qe 0 k (rows s)")
     (simp_all add: retrieve_try_def Let_def table_select_count_execute_def
        rpc_match_documents_execute_def split: sum.splits)

lemma retrieve_try_have_similarity:
  assumes "fst (retrieve_try w q k s) = Inr docs"
  shows "list_all (\<lambda>d. doc_similarity d \<noteq> None) docs"
proof (cases "embed_query w (length (calls s)) q")
  case (Inl e)
  with assms show ?thesis by (simp add: retrieve_try_def Let_def)
next
  case (Inr qe)
  show ?thesis
  proof (cases "select_count_fault w")
    case (Some e)
    with Inr assms show ?thesis
      by (simp add: retrieve_try_def Let_def table_select_count_execute_def)
  next
    case None
    note a = assms [unfolded retrieve_try_fst [OF Inr None]]
    show ?thesis
    proof (cases "match_documents w qe 0 k (rows s)")
      case (Inl e)
      with a show ?thesis by simp
    next
      case data: (Inr data)
      show ?thesis
      proof (cases "data = []")
        case True
        with a data show ?thesis by simp
      next
        case False
        with a data show ?thesis
          by (cases "print_similarities data") (auto dest: print_similarities_ok)
      qed
    qed
  qed
qed

lemma retrieved_have_similarity:
  "fst (retrieve_relevant_chunks w q k s) = Inr docs \<Longrightarrow>
     list_all (\<lambda>d. doc_similarity d \<noteq> None) docs"
  using retrieve_try_have_similarity [of w q "case k of None \<Rightarrow> 4 | Some k' \<Rightarrow> k'" s docs]
  by (cases "fst (retrieve_try w q (case k of None \<Rightarrow> 4 | Some k' \<Rightarrow> k') s)")
     (auto simp add: retrieve_relevant_chunks_fst)

lemma query_stream_unfold:
  "fst (retrieve_relevant_chunks w q (Some 3) s) = Inr docs \<Longrightarrow>
   query_stream w q s =
     (if docs = [] then (([fallback_message], None), snd (retrieve_relevant_chunks w q (Some 3) s))
      else
        (case astream w template (str_join [CHR 0x0A, CHR 0x0A] (map doc_content docs)) q of
           (fragments, Some e) \<Rightarrow>
             ((fragments, Some e),
              record_call (LlmStream template (str_join [CHR 0x0A, CHR 0x0A] (map doc_content docs)) q)
                (snd (retrieve_relevant_chunks w q (Some 3) s)))
         | (fragments, None) \<Rightarrow>
             ((fragments @ [sources_header] @ fst (sources_loop w 1 docs),
               snd (sources_loop w 1 docs)),
              record_call (LlmStream template (str_join [CHR 0x0A, CHR 0x0A] (map doc_content docs)) q)
                (snd (retrieve_relevant_chunks w q (Some 3) s)))))"
  by (cases "retrieve_relevant_chunks w q (Some 3) s")
     (simp add: query_stream_def Let_def split: prod.splits option.splits)

lemma retrieve_no_llm_call:
  "filter is_llm_call (calls (snd (retrieve_relevant_chunks w q k s))) =
     filter is_llm_call (calls s)"
  by (simp add: retrieve_relevant_chunks_snd retrieve_try_calls is_llm_call_def
      split: sum.splits option.splits)

lemma fallback_not_header: "fallback_message \<noteq> sources_header"
  by (simp add: fallback_message_def sources_header_def)

text \<open>
  C4: when retrieval returns no match, \<open>query_stream\<close> yields the fixed fallback message
  and nothing else, then returns; it makes no call to the language model and yields no
  sources header.
\<close>

theorem query_stream_no_context:
  "fst (retrieve_relevant_chunks w question (Some 3) s) = Inr [] \<Longrightarrow>
     fst (query_stream w question s) = ([fallback_message], None) \<and>
     filter is_llm_call (calls (snd (query_stream w question s))) =
       filter is_llm_call (calls s) \<and>
     sources_header \<notin> set (fst (fst (query_stream w question s)))"
  using fallback_not_header
  by (simp add: query_stream_unfold retrieve_no_llm_call)

lemma sample_retrieve_empty:
  "fst (retrieve_relevant_chunks sample_world ''What is RAG?'' (Some 3) empty_store) = Inr []"
  by (simp add: retrieve_relevant_chunks_fst retrieve_try_def table_select_count_execute_def
      rpc_match_documents_execute_def Let_def sample_world_def empty_store_def)

theorem query_stream_no_context_witness:
  "fst (retrieve_relevant_chunks sample_world ''What is RAG?'' (Some 3) empty_store) = Inr [] \<and>
   fst (query_stream sample_world ''What is RAG?'' empty_store) = ([fallback_message], None) \<and>
   filter is_llm_call (calls (snd (query_stream sample_world ''What is RAG?'' empty_store))) = []"
proof -
  have e: "filter is_llm_call (calls empty_store) = []"
    by (simp add: empty_store_def)
  from query_stream_no_context [OF sample_retrieve_empty] sample_retrieve_empty e
  show ?thesis by simp
qed

lemma query_stream_calls:
  "\<exists>rest. calls (snd (query_stream w q s)) =
      calls (snd (retrieve_relevant_chunks w q (Some 3) s)) @ rest \<and> list_all is_llm_call rest"
proof -
  obtain docs where d: "fst (retrieve_relevant_chunks w q (Some 3) s) = Inr docs"
    using retrieve_never_raises by blast
  show ?thesis
    by (cases "docs = []")
       (simp_all add: query_stream_unfold [OF d] is_llm_call_def split: prod.splits option.splits)
qed

text \<open>
  C5: retrieval embeds the question first, and its similarity search carries the embedding
  returned, the threshold 0 and the count \<open>k\<close>, which is 4 when the caller gives none; the
  streaming query retrieves with \<open>k = 3\<close>. (Between the two the program asks the store for
  its row count; a failure of either earlier call ends the sequence there.)
\<close>

theorem retrieval_call_sequence:
  "calls (snd (retrieve_relevant_chunks w question k s)) =
     calls s @
     (case embed_query w (length (calls s)) question of
        Inl e \<Rightarrow> [EmbedQuery question]
      | Inr query_embedding \<Rightarrow>
          (case select_count_fault w of
             Some e \<Rightarrow> [EmbedQuery question, SelectCount]
           | None \<Rightarrow>
               [EmbedQuery question, SelectCount,
                RpcMatchDocuments query_embedding 0 (case k of None \<Rightarrow> 4 | Some k' \<Rightarrow> k')])) \<and>
   (\<exists>rest. list_all is_llm_call rest \<and>
      calls (snd (query_stream w question s)) =
        calls s @
        (case embed_query w (length (calls s)) question of
           Inl e \<Rightarrow> [EmbedQuery question]
         | Inr query_embedding \<Rightarrow>
             (case select_count_fault w of
                Some e \<Rightarrow> [EmbedQuery question, SelectCount]
              | None \<Rightarrow>
                  [EmbedQuery question, SelectCount, RpcMatchDocuments query_embedding 0 3])) @
        rest)"
proof
  show "calls (snd (retrieve_relevant_chunks w question k s)) =
     calls s @
     (case embed_query w (length (calls s)) question of
        Inl e \<Rightarrow> [EmbedQuery question]
      | Inr query_embedding \<Rightarrow>
          (case select_count_fault w of
             Some e \<Rightarrow> [EmbedQuery question, SelectCount]
           | None \<Rightarrow>
               [EmbedQuery question, SelectCount,
                RpcMatchDocuments query_embedding 0 (case k of None \<Rightarrow> 4 | Some k' \<Rightarrow> k')]))"
    by (simp add: retrieve_relevant_chunks_snd retrieve_try_calls)
next
  obtain rest where r: "calls (snd (query_stream w question s)) =
      calls (snd (retrieve_relevant_chunks w question (Some 3) s)) @ rest"
      "list_all is_llm_call rest"
    using query_stream_calls by blast
  then show "\<exists>rest. list_all is_llm_call rest \<and>
      calls (snd (query_stream w question s)) =
        calls s @
        (case embed_query w (length (calls s)) question of
           Inl e \<Rightarrow> [EmbedQuery question]
         | Inr query_embedding \<Rightarrow>
             (case select_count_fault w of
                Some e \<Rightarrow> [EmbedQuery question, SelectCount]
              | None \<Rightarrow>
                  [EmbedQuery question, SelectCount, RpcMatchDocuments query_embedding 0 3])) @
        rest"
    by (simp add: retrieve_relevant_chunks_snd retrieve_try_calls)
qed

theorem retrieval_call_sequence_witness:
  "calls (snd (retrieve_relevant_chunks sample_world ''What is RAG?'' None sample_store)) =
     [EmbedQuery ''What is RAG?'', SelectCount, RpcMatchDocuments [1 / 2, 1 / 4] 0 4] \<and>
   take 3 (calls (snd (query_stream sample_world ''What is RAG?'' sample_store))) =
     [EmbedQuery ''What is RAG?'', SelectCount, RpcMatchDocuments [1 / 2, 1 / 4] 0 3]"
proof -
  note t = retrieval_call_sequence [of sample_world "''What is RAG?''" None sample_store]
  have c: "calls sample_store = []"
    by (simp add: sample_store_def)
  have e: "embed_query sample_world 0 ''What is RAG?'' = Inr [1 / 2, 1 / 4]"
    by (simp add: sample_world_def)
  have f: "select_count_fault sample_world = None"
    by (simp add: sample_world_def)
  from t [THEN conjunct2] obtain rest where
    "calls (snd (query_stream sample_world ''What is RAG?'' sample_store)) =
       [EmbedQuery ''What is RAG?'', SelectCount, RpcMatchDocuments [1 / 2, 1 / 4] 0 3] @ rest"
    by (auto simp add: c e f)
  then have "take 3 (calls (snd (query_stream sample_world ''What is RAG?'' sample_store))) =
      [EmbedQuery ''What is RAG?'', SelectCount, RpcMatchDocuments [1 / 2, 1 / 4] 0 3]"
    by simp
  with t [THEN conjunct1] show ?thesis
    by (simp add: c e f)
qed

section \<open>Ingestion: order of the calls and what is stored\<close>

lemma rows_store_chunks_loop:
  "rows (snd (store_chunks_loop w src i chunks acc s)) = rows s"
  by (induction chunks arbitrary: i acc s) (simp_all add: Let_def split: sum.splits)

lemma store_chunks_loop_fails:
  "\<exists>j<length chunks. isl (embed_query w (length (calls s) + j) (page_content (chunks ! j))) \<Longrightarrow>
     isl (fst (store_chunks_loop w src i chunks acc s)) \<and>
     filter is_insert_call (calls (snd (store_chunks_loop w src i chunks acc s))) =
       filter is_insert_call (calls s)"
proof (induction chunks arbitrary: i acc s)
  case Nil
  then show ?case by simp
next
  case (Cons c rest)
  show ?case
  proof (cases "embed_query w (length (calls s)) (page_content c)")
    case (Inl e)
    then show ?thesis by (simp add: Let_def is_insert_call_def)
  next
    case (Inr v)
    from Cons.prems obtain j where j: "j < length (c # rest)"
      "isl (embed_query w (length (calls s) + j) (page_content ((c # rest) ! j)))"
      by blast
    with Inr obtain j' where j': "j = Suc j'"
      by (cases j) auto
    let ?s1 = "record_call (EmbedQuery (page_content c)) s"
    from j j' have "\<exists>j<length rest.
        isl (embed_query w (length (calls ?s1) + j) (page_content (rest ! j)))"
      by auto
    from Cons.IH [OF this] Inr show ?thesis
      by (simp add: Let_def is_insert_call_def)
  qed
qed

lemma store_chunks_loop_succeeds:
  "\<forall>j<length chunks. \<not> isl (embed_query w (length (calls s) + j) (page_content (chunks ! j))) \<Longrightarrow>
     \<exists>data s1. store_chunks_loop w src i chunks acc s = (Inr data, s1) \<and>
       length data = length acc + length chunks \<and>
       calls s1 = calls s @ map (\<lambda>c. EmbedQuery (page_content c)) chunks"
proof (induction chunks arbitrary: i acc s)
  case Nil
  then show ?case by simp
next
  case (Cons c rest)
  from Cons.prems have "\<not> isl (embed_query w (length (calls s)) (page_content c))"
    by force
  then obtain v where v: "embed_query w (length (calls s)) (page_content c) = Inr v"
    by (cases "embed_query w (length (calls s)) (page_content c)") auto
  let ?s1 = "record_call (EmbedQuery (page_content c)) s"
  have "\<forall>j<length rest.
      \<not> isl (embed_query w (length (calls ?s1) + j) (page_content (rest ! j)))"
  proof (intro allI impI)
    fix j assume "j < length rest"
    with Cons.prems have
      "\<not> isl (embed_query w (length (calls s) + Suc j) (page_content ((c # rest) ! Suc j)))"
      by (metis Suc_less_eq length_Cons)
    then show "\<not> isl (embed_query w (length (calls ?s1) + j) (page_content (rest ! j)))"
      by simp
  qed
  from Cons.IH [OF this, of "i + 1"
      "acc @ [\<lparr>ins_content = page_content c,
               ins_metadata = json_dumps w (build_metadata src i c),
               ins_embedding = v\<rparr>]"] v
  show ?case
    by (simp add: Let_def)
qed

text \<open>
  C9: the embeddings of all chunks are computed before the one batch insert is issued. If
  the provider fails on some chunk, \<open>_store_chunks\<close> raises, no insert request is made and
  the stored records are unchanged; if it fails on none, the calls are one embedding per
  chunk, in order, followed by a single batch insert of as many records.
\<close>

theorem embeddings_precede_insert:
  "((\<exists>j<length chunks.
       isl (embed_query w (length (calls s) + j) (page_content (chunks ! j)))) \<longrightarrow>
      isl (fst (store_chunks w chunks source_file s)) \<and>
      rows (snd (store_chunks w chunks source_file s)) = rows s \<and>
      filter is_insert_call (calls (snd (store_chunks w chunks source_file s))) =
        filter is_insert_call (calls s)) \<and>
   ((\<forall>j<length chunks.
       \<not> isl (embed_query w (length (calls s) + j) (page_content (chunks ! j)))) \<longrightarrow>
      (\<exists>insert_data. length insert_data = length chunks \<and>
         calls (snd (store_chunks w chunks source_file s)) =
           calls s @ map (\<lambda>c. EmbedQuery (page_content c)) chunks @ [InsertBatch insert_data]))"
proof (intro conjI impI)
  assume f: "\<exists>j<length chunks.
       isl (embed_query w (length (calls s) + j) (page_content (chunks ! j)))"
  obtain r s1 where l: "store_chunks_loop w source_file 0 chunks [] s = (r, s1)"
    by (cases "store_chunks_loop w source_file 0 chunks [] s")
  from store_chunks_loop_fails [OF f, of source_file 0 "[]"] l obtain e where e: "r = Inl e"
    and c: "filter is_insert_call (calls s1) = filter is_insert_call (calls s)"
    by (cases r) auto
  from rows_store_chunks_loop [of w source_file 0 chunks "[]" s] l have rw: "rows s1 = rows s"
    by simp
  from l e have sc: "store_chunks w chunks source_file s = (Inl e, s1)"
    by (simp add: store_chunks_def)
  show "isl (fst (store_chunks w chunks source_file s))" by (simp add: sc)
  show "rows (snd (store_chunks w chunks source_file s)) = rows s" by (simp add: sc rw)
  show "filter is_insert_call (calls (snd (store_chunks w chunks source_file s))) =
        filter is_insert_call (calls s)" by (simp add: sc c)
next
  assume ok: "\<forall>j<length chunks.
       \<not> isl (embed_query w (length (calls s) + j) (page_content (chunks ! j)))"
  from store_chunks_loop_succeeds [OF ok, of source_file 0 "[]"]
  obtain data s1 where l: "store_chunks_loop w source_file 0 chunks [] s = (Inr data, s1)"
    and n: "length data = length chunks"
    and c: "calls s1 = calls s @ map (\<lambda>c. EmbedQuery (page_content c)) chunks"
    by auto
  have "calls (snd (store_chunks w chunks source_file s)) =
      calls s @ map (\<lambda>c. EmbedQuery (page_content c)) chunks @ [InsertBatch data]"
    by (simp add: store_chunks_def l table_insert_execute_def Let_def c
        split: option.splits prod.splits)
  with n show "\<exists>insert_data. length insert_data = length chunks \<and>
         calls (snd (store_chunks w chunks source_file s)) =
           calls s @ map (\<lambda>c. EmbedQuery (page_content c)) chunks @ [InsertBatch insert_data]"
    by blast
qed

theorem embeddings_precede_insert_witness:
  "isl (embed_query embed_second_down (length (calls empty_store) + 1)
         (page_content (sample_chunks ! 1))) \<and>
   isl (fst (store_chunks embed_second_down sample_chunks ''uploads/a.txt'' empty_store)) \<and>
   rows (snd (store_chunks embed_second_down sample_chunks ''uploads/a.txt'' empty_store)) = [] \<and>
   filter is_insert_call
     (calls (snd (store_chunks embed_second_down sample_chunks ''uploads/a.txt'' empty_store))) = [] \<and>
   \<not> isl (embed_query sample_world (length (calls empty_store) + 0)
         (page_content (sample_chunks ! 0))) \<and>
   \<not> isl (embed_query sample_world (length (calls empty_store) + 1)
         (page_content (sample_chunks ! 1))) \<and>
   (\<exists>insert_data. length insert_data = 2 \<and>
      calls (snd (store_chunks sample_world sample_chunks ''uploads/a.txt'' empty_store)) =
        [EmbedQuery ''alpha'', EmbedQuery ''beta'', InsertBatch insert_data])"
proof -
  have n: "length sample_chunks = 2"
    by (simp add: sample_chunks_def)
  have f1: "isl (embed_query embed_second_down (length (calls empty_store) + 1)
         (page_content (sample_chunks ! 1)))"
    by (simp add: embed_second_down_def sample_world_def empty_store_def)
  then have f: "\<exists>j<length sample_chunks.
      isl (embed_query embed_second_down (length (calls empty_store) + j)
         (page_content (sample_chunks ! j)))"
    using n by (intro exI [of _ 1]) simp
  have ok: "\<forall>j<length sample_chunks.
      \<not> isl (embed_query sample_world (length (calls empty_store) + j)
         (page_content (sample_chunks ! j)))"
    by (simp add: sample_world_def)
  have e: "rows empty_store = []" "calls empty_store = []"
    by (simp_all add: empty_store_def)
  have m: "map (\<lambda>c. EmbedQuery (page_content c)) sample_chunks =
      [EmbedQuery ''alpha'', EmbedQuery ''beta'']"
    by (simp add: sample_chunks_def)
  note a = embeddings_precede_insert [of sample_chunks embed_second_down empty_store
      "''uploads/a.txt''", THEN conjunct1, THEN mp, OF f]
  note b = embeddings_precede_insert [of sample_chunks sample_world empty_store
      "''uploads/a.txt''", THEN conjunct2, THEN mp, OF ok]
  from a b f1 ok n e m show ?thesis
    by (simp add: sample_world_def)
qed

lemma store_chunks_loop_metadata:
  "store_chunks_loop w src i chunks acc s = (Inr data, s1) \<Longrightarrow>
     map ins_metadata data =
       map ins_metadata acc @
       map (\<lambda>(j, c). json_dumps w (build_metadata src j c)) (enumerate i chunks)"
proof (induction chunks arbitrary: i acc s)
  case Nil
  then show ?case by simp
next
  case (Cons c rest)
  then show ?case
    by (cases "embed_query w (length (calls s)) (page_content c)")
       (simp_all add: Let_def)
qed

lemma store_rows_metadata:
  "map row_metadata (rows (store_rows ds s)) = map row_metadata (rows s) @ map ins_metadata ds"
  by (induction ds arbitrary: s) simp_all

lemma build_metadata_keys:
  "map fst (build_metadata src i c) = [''source'', ''chunk_index'', ''page'']"
  by (simp add: build_metadata_def)

lemma build_metadata_values:
  "map_of (build_metadata src i c) ''source'' = Some (JStr src)"
  "map_of (build_metadata src i c) ''chunk_index'' = Some (JInt (int i))"
  "map_of (build_metadata src i c) ''page'' =
     Some (case map_of (chunk_metadata c) ''page'' of None \<Rightarrow> JInt 0 | Some p \<Rightarrow> p)"
  by (simp_all add: build_metadata_def)

text \<open>
  C10: the metadata of every record that ingestion puts into the store (all of them when
  the insert succeeds, the first ones of the batch otherwise) is the serialised dictionary
  with exactly the keys \<open>source\<close>, \<open>chunk_index\<close> and \<open>page\<close>, where \<open>chunk_index\<close> is the
  position of the chunk, from 0, and \<open>page\<close> is the chunk's page or 0 without one: the key
  \<open>page\<close> is never absent.
\<close>

theorem inserted_metadata_keys:
  "(\<exists>m. map row_metadata (rows (snd (store_chunks w chunks source_file s))) =
        map row_metadata (rows s) @
        take m (map (\<lambda>(i, c). json_dumps w (build_metadata source_file i c))
                 (enumerate 0 chunks))) \<and>
   (fst (store_chunks w chunks source_file s) = Inr () \<longrightarrow>
      map row_metadata (rows (snd (store_chunks w chunks source_file s))) =
        map row_metadata (rows s) @
        map (\<lambda>(i, c). json_dumps w (build_metadata source_file i c)) (enumerate 0 chunks)) \<and>
   (\<forall>i c. map fst (build_metadata source_file i c) = [''source'', ''chunk_index'', ''page''] \<and>
      map_of (build_metadata source_file i c) ''source'' = Some (JStr source_file) \<and>
      map_of (build_metadata source_file i c) ''chunk_index'' = Some (JInt (int i)) \<and>
      map_of (build_metadata source_file i c) ''page'' =
        Some (case map_of (chunk_metadata c) ''page'' of None \<Rightarrow> JInt 0 | Some p \<Rightarrow> p))"
proof (intro conjI impI allI)
  let ?md = "map (\<lambda>(i, c). json_dumps w (build_metadata source_file i c)) (enumerate 0 chunks)"
  obtain r s1 where l: "store_chunks_loop w source_file 0 chunks [] s = (r, s1)"
    by (cases "store_chunks_loop w source_file 0 chunks [] s")
  from rows_store_chunks_loop [of w source_file 0 chunks "[]" s] l have rw: "rows s1 = rows s"
    by simp
  show "\<exists>m. map row_metadata (rows (snd (store_chunks w chunks source_file s))) =
        map row_metadata (rows s) @ take m ?md"
  proof (cases r)
    case (Inl e)
    with l rw have "map row_metadata (rows (snd (store_chunks w chunks source_file s))) =
        map row_metadata (rows s) @ take 0 ?md"
      by (simp add: store_chunks_def)
    then show ?thesis by blast
  next
    case (Inr data)
    with l have d: "map ins_metadata data = ?md"
      using store_chunks_loop_metadata [of w source_file 0 chunks "[]" s data s1] by simp
    show ?thesis
    proof (cases "insert_fault w")
      case None
      with l Inr rw d have
        "map row_metadata (rows (snd (store_chunks w chunks source_file s))) =
           map row_metadata (rows s) @ take (length ?md) ?md"
        by (simp add: store_chunks_def table_insert_execute_def Let_def store_rows_metadata)
      then show ?thesis by blast
    next
      case (Some en)
      obtain e n where "en = (e, n)" by (cases en)
      with Some l Inr rw d have
        "map row_metadata (rows (snd (store_chunks w chunks source_file s))) =
           map row_metadata (rows s) @ take n ?md"
        by (simp add: store_chunks_def table_insert_execute_def Let_def store_rows_metadata
            take_map [symmetric])
      then show ?thesis by blast
    qed
  qed
  assume ok: "fst (store_chunks w chunks source_file s) = Inr ()"
  show "map row_metadata (rows (snd (store_chunks w chunks source_file s))) =
        map row_metadata (rows s) @ ?md"
  proof (cases r)
    case (Inl e)
    with l ok show ?thesis by (simp add: store_chunks_def)
  next
    case (Inr data)
    with l have d: "map ins_metadata data = ?md"
      using store_chunks_loop_metadata [of w source_file 0 chunks "[]" s data s1] by simp
    from ok l Inr have "insert_fault w = None"
      by (cases "insert_fault w")
         (auto simp add: store_chunks_def table_insert_execute_def Let_def)
    with l Inr rw d show ?thesis
      by (simp add: store_chunks_def table_insert_execute_def Let_def store_rows_metadata)
  qed
qed (simp_all add: build_metadata_keys build_metadata_values)

lemma sample_store_chunks_ok:
  "fst (store_chunks sample_world sample_chunks ''uploads/a.txt'' empty_store) = Inr ()"
  by (simp add: store_chunks_def table_insert_execute_def Let_def sample_world_def
      sample_chunks_def split: prod.splits sum.splits)

lemma sample_metadata:
  "map (\<lambda>(i, c). json_dumps sample_world (build_metadata ''uploads/a.txt'' i c))
     (enumerate 0 sample_chunks) =
   [''source=uploads/a.txt;chunk_index=0;page=2;'', ''source=uploads/a.txt;chunk_index=1;page=0;'']"
  by (simp add: sample_world_def sample_chunks_def build_metadata_def str_int_def
      digit_char_values)

theorem inserted_metadata_keys_witness:
  "fst (store_chunks sample_world sample_chunks ''uploads/a.txt'' empty_store) = Inr () \<and>
   map row_metadata
     (rows (snd (store_chunks sample_world sample_chunks ''uploads/a.txt'' empty_store))) =
   [''source=uploads/a.txt;chunk_index=0;page=2;'', ''source=uploads/a.txt;chunk_index=1;page=0;'']"
proof -
  have e: "rows empty_store = []"
    by (simp add: empty_store_def)
  note t = inserted_metadata_keys [of sample_world sample_chunks "''uploads/a.txt''"
      empty_store, THEN conjunct2, THEN conjunct1, THEN mp, OF sample_store_chunks_ok]
  from t sample_store_chunks_ok e sample_metadata show ?thesis
    by simp
qed

section \<open>Clearing: the store afterwards\<close>

lemma clear_database_rows:
  "fst (clear_database w s) = Inr True \<Longrightarrow>
     rows (snd (clear_database w s)) = filter (\<lambda>r. row_id r = 0) (rows s)"
  by (auto simp add: clear_database_unfold split: option.splits)

lemma ids_assigned_record_call [simp]: "ids_assigned (record_call c s) = ids_assigned s"
  by (simp add: ids_assigned_def)

lemma ids_assigned_store_rows: "ids_assigned s \<Longrightarrow> ids_assigned (store_rows ds s)"
  by (induction ds arbitrary: s) (simp_all add: ids_assigned_def)

lemma next_id_store_chunks_loop:
  "next_id (snd (store_chunks_loop w src i chunks acc s)) = next_id s"
  by (induction chunks arbitrary: i acc s) (simp_all add: Let_def split: sum.splits)

lemma ids_assigned_store_chunks_loop:
  "ids_assigned (snd (store_chunks_loop w src i chunks acc s)) = ids_assigned s"
  by (simp add: ids_assigned_def rows_store_chunks_loop next_id_store_chunks_loop)

lemma ids_assigned_store_chunks:
  assumes "ids_assigned s"
  shows "ids_assigned (snd (store_chunks w chunks src s))"
proof -
  obtain r s1 where l: "store_chunks_loop w src 0 chunks [] s = (r, s1)"
    by (cases "store_chunks_loop w src 0 chunks [] s")
  from ids_assigned_store_chunks_loop [of w src 0 chunks "[]" s] l assms
  have a: "ids_assigned s1" by simp
  show ?thesis
  proof (cases r)
    case (Inl e)
    with l a show ?thesis by (simp add: store_chunks_def)
  next
    case (Inr data)
    from a have "\<And>ds. ids_assigned (store_rows ds (record_call (InsertBatch data) s1))"
      by (simp add: ids_assigned_store_rows)
    with l Inr show ?thesis
      by (cases "insert_fault w")
         (auto simp add: store_chunks_def table_insert_execute_def Let_def)
  qed
qed

lemma ids_assigned_clear_database:
  "ids_assigned s \<Longrightarrow> ids_assigned (snd (clear_database w s))"
  by (cases "delete_fault w")
     (auto simp add: clear_database_unfold ids_assigned_def list_all_iff)

lemma rows_retrieve_try: "rows (snd (retrieve_try w q k s)) = rows s"
  by (simp add: retrieve_try_def table_select_count_execute_def
      rpc_match_documents_execute_def Let_def split: sum.splits option.splits)

lemma next_id_retrieve_try: "next_id (snd (retrieve_try w q k s)) = next_id s"
  by (simp add: retrieve_try_def table_select_count_execute_def
      rpc_match_documents_execute_def Let_def split: sum.splits option.splits)

lemma ids_assigned_retrieve:
  "ids_assigned (snd (retrieve_relevant_chunks w q k s)) = ids_assigned s"
  by (simp add: ids_assigned_def retrieve_relevant_chunks_snd rows_retrieve_try
      next_id_retrieve_try)

lemma ids_assigned_query_stream:
  "ids_assigned (snd (query_stream w q s)) = ids_assigned s"
proof -
  obtain docs where d: "fst (retrieve_relevant_chunks w q (Some 3) s) = Inr docs"
    using retrieve_never_raises by blast
  show ?thesis
    by (cases "docs = []")
       (simp_all add: query_stream_unfold [OF d] ids_assigned_retrieve
          split: prod.splits option.splits)
qed

text \<open>
  C7: in a store whose identifiers are the positive numbers the store assigns, a successful
  clear removes every record, and \<open>count()\<close> is 0 afterwards: the filter \<open>id \<noteq> 0\<close> of the
  delete request exempts none of them. The store is in such a state when it is empty, and
  after every operation of the program on such a state.
\<close>

theorem clear_database_leaves_count_zero:
  "(ids_assigned s \<longrightarrow> fst (clear_database w s) = Inr True \<longrightarrow>
      rows (snd (clear_database w s)) = [] \<and> count (snd (clear_database w s)) = 0) \<and>
   ids_assigned \<lparr>rows = [], next_id = 1, calls = cs\<rparr> \<and>
   (ids_assigned s \<longrightarrow>
      ids_assigned (snd (store_chunks w chunks source_file s)) \<and>
      ids_assigned (snd (retrieve_relevant_chunks w question k s)) \<and>
      ids_assigned (snd (query_stream w question s)) \<and>
      ids_assigned (snd (clear_database w s)))"
proof (intro conjI impI)
  assume a: "ids_assigned s" and ok: "fst (clear_database w s) = Inr True"
  from a have "filter (\<lambda>r. row_id r = 0) (rows s) = []"
    by (auto simp add: ids_assigned_def list_all_iff filter_empty_conv)
  with clear_database_rows [OF ok]
  show "rows (snd (clear_database w s)) = []" "count (snd (clear_database w s)) = 0"
    by (simp_all add: count_def)
next
  show "ids_assigned \<lparr>rows = [], next_id = 1, calls = cs\<rparr>"
    by (simp add: ids_assigned_def)
qed (simp_all add: ids_assigned_store_chunks ids_assigned_retrieve ids_assigned_query_stream
    ids_assigned_clear_database)

lemma sample_ingested:
  "snd (store_chunks sample_world sample_chunks ''uploads/a.txt'' empty_store) =
     \<lparr>rows = [\<lparr>row_id = 1, row_content = ''alpha'',
               row_metadata = ''source=uploads/a.txt;chunk_index=0;page=2;'',
               row_embedding = [1 / 2, 1 / 4]\<rparr>,
              \<lparr>row_id = 2, row_content = ''beta'',
               row_metadata = ''source=uploads/a.txt;chunk_index=1;page=0;'',
               row_embedding = [1 / 2, 1 / 4]\<rparr>],
      next_id = 3,
      calls = [EmbedQuery ''alpha'', EmbedQuery ''beta'',
               InsertBatch
                 [\<lparr>ins_content = ''alpha'',
                   ins_metadata = ''source=uploads/a.txt;chunk_index=0;page=2;'',
                   ins_embedding = [1 / 2, 1 / 4]\<rparr>,
                  \<lparr>ins_content = ''beta'',
                   ins_metadata = ''source=uploads/a.txt;chunk_index=1;page=0;'',
                   ins_embedding = [1 / 2, 1 / 4]\<rparr>]]\<rparr>"
  by (simp add: store_chunks_def table_insert_execute_def Let_def sample_world_def
      sample_chunks_def empty_store_def record_call_def build_metadata_def str_int_def
      digit_char_values)

theorem clear_database_leaves_count_zero_witness:
  "ids_assigned empty_store \<and>
   ids_assigned (snd (store_chunks sample_world sample_chunks ''uploads/a.txt'' empty_store)) \<and>
   count (snd (store_chunks sample_world sample_chunks ''uploads/a.txt'' empty_store)) = 2 \<and>
   fst (clear_database sample_world
          (snd (store_chunks sample_world sample_chunks ''uploads/a.txt'' empty_store))) =
     Inr True \<and>
   count (snd (clear_database sample_world
                 (snd (store_chunks sample_world sample_chunks ''uploads/a.txt'' empty_store)))) = 0"
proof -
  let ?s = "snd (store_chunks sample_world sample_chunks ''uploads/a.txt'' empty_store)"
  have e: "ids_assigned empty_store"
    unfolding empty_store_def
    by (rule clear_database_leaves_count_zero [THEN conjunct2, THEN conjunct1])
  note p = clear_database_leaves_count_zero [of empty_store sample_world _ sample_chunks
      "''uploads/a.txt''", THEN conjunct2, THEN conjunct2, THEN mp, OF e, THEN conjunct1]
  have c: "count ?s = 2"
    by (simp add: sample_ingested count_def)
  have ok: "fst (clear_database sample_world ?s) = Inr True"
    by (simp add: clear_database_unfold sample_world_def)
  note z = clear_database_leaves_count_zero [of ?s sample_world, THEN conjunct1, THEN mp,
      OF p, THEN mp, OF ok, THEN conjunct2]
  from e p c ok z show ?thesis by simp
qed

section \<open>The streaming answer: attribution\<close>

lemma round_half_even_near: "\<bar>of_int (round_half_even x) - x\<bar> \<le> 1 / 2"
proof -
  have a: "of_int \<lfloor>x\<rfloor> \<le> x" and b: "x < of_int \<lfloor>x\<rfloor> + 1"
    by linarith+
  show ?thesis
  proof (cases "x - of_int \<lfloor>x\<rfloor> < 1 / 2")
    case True
    with a show ?thesis by (simp add: round_half_even_def Let_def)
  next
    case False
    with a b show ?thesis
      by (cases "1 / 2 < x - of_int \<lfloor>x\<rfloor>") (auto simp add: round_half_even_def Let_def)
  qed
qed

lemma digit_table:
  "digit_char 0 = digit_of 0" "digit_char 1 = digit_of 1" "digit_char 2 = digit_of 2"
  "digit_char 3 = digit_of 3" "digit_char 4 = digit_of 4" "digit_char 5 = digit_of 5"
  "digit_char 6 = digit_of 6" "digit_char 7 = digit_of 7" "digit_char 8 = digit_of 8"
  "digit_char 9 = digit_of 9"
  by code_simp+

lemma digit_char_digit_of: "d < 10 \<Longrightarrow> digit_char d = digit_of d"
proof -
  assume "d < 10"
  then have "d = 0 \<or> d = 1 \<or> d = 2 \<or> d = 3 \<or> d = 4 \<or> d = 5 \<or> d = 6 \<or> d = 7 \<or> d = 8 \<or> d = 9"
    by arith
  then show ?thesis
    using digit_table by (elim disjE) simp_all
qed

lemma decimal_step:
  "decimal n = (if n < 10 then [digit_of n] else decimal (n div 10) @ [digit_of (n mod 10)])"
  by (subst decimal_def, subst digits_lsb.simps) (simp add: decimal_def)

lemma str_nat_decimal: "str_nat n = decimal n"
proof (induction n rule: str_nat.induct)
  case (1 n)
  show ?case
  proof (cases "n < 10")
    case True
    then show ?thesis
      by (subst str_nat.simps, subst decimal_step) (simp add: digit_char_digit_of)
  next
    case False
    with "1" show ?thesis
      by (subst str_nat.simps, subst decimal_step) (simp add: digit_char_digit_of)
  qed
qed

lemma py_str_shown: "py_str v = shown v"
  by (cases v) (simp_all add: str_int_def str_nat_decimal del: str_nat.simps)

lemma round_floor_low: "y - of_int \<lfloor>y\<rfloor> < 1 / 2 \<Longrightarrow> round y = \<lfloor>y\<rfloor>" for y :: rat
proof -
  assume lo: "y - of_int \<lfloor>y\<rfloor> < 1 / 2"
  have a: "of_int \<lfloor>y\<rfloor> \<le> y"
    by linarith
  have "\<lfloor>y + 1 / 2\<rfloor> = \<lfloor>y\<rfloor>"
  proof (rule floor_unique)
    from a show "of_int \<lfloor>y\<rfloor> \<le> y + 1 / 2" by linarith
    from lo show "y + 1 / 2 < of_int \<lfloor>y\<rfloor> + 1" by linarith
  qed
  then show ?thesis by (simp add: round_def)
qed

lemma round_floor_high: "1 / 2 \<le> y - of_int \<lfloor>y\<rfloor> \<Longrightarrow> round y = \<lfloor>y\<rfloor> + 1" for y :: rat
proof -
  assume hi: "1 / 2 \<le> y - of_int \<lfloor>y\<rfloor>"
  have b: "y < of_int \<lfloor>y\<rfloor> + 1"
    by linarith
  have "\<lfloor>y + 1 / 2\<rfloor> = \<lfloor>y\<rfloor> + 1"
  proof (rule floor_unique)
    from hi show "of_int (\<lfloor>y\<rfloor> + 1) \<le> y + 1 / 2" by simp
    from b show "y + 1 / 2 < of_int (\<lfloor>y\<rfloor> + 1) + 1" by simp
  qed
  then show ?thesis by (simp add: round_def)
qed

lemma round_half_even_round:
  "round_half_even y =
     (if of_int (round y) - y = 1 / 2 \<and> odd (round y) then round y - 1 else round y)"
proof -
  let ?f = "\<lfloor>y\<rfloor>"
  have a: "of_int ?f \<le> y" and b: "y < of_int ?f + 1"
    by linarith+
  consider (lo) "y - of_int ?f < 1 / 2" | (hi) "1 / 2 < y - of_int ?f"
    | (tie) "y - of_int ?f = 1 / 2"
    by linarith
  then show ?thesis
  proof cases
    case lo
    from a have n: "of_int ?f - y \<noteq> 1 / 2"
      by linarith
    from lo n show ?thesis
      by (simp add: round_half_even_def Let_def round_floor_low)
  next
    case hi
    then have r: "round y = ?f + 1"
      by (simp add: round_floor_high)
    from hi have n: "of_int (?f + 1) - y \<noteq> 1 / 2" "\<not> y - of_int ?f < 1 / 2"
      by simp_all
    from hi n show ?thesis
      unfolding round_half_even_def Let_def r by simp
  next
    case tie
    then have r: "round y = ?f + 1"
      by (simp add: round_floor_high)
    from tie have n: "of_int (?f + 1) - y = 1 / 2" "\<not> y - of_int ?f < 1 / 2"
      "\<not> 1 / 2 < y - of_int ?f"
      by simp_all
    from n show ?thesis
      unfolding round_half_even_def Let_def r by simp
  qed
qed

lemma round_half_even_hundredths: "nat (round_half_even (\<bar>x\<bar> * 100)) = hundredths x"
  by (simp add: hundredths_def Let_def round_half_even_round)

lemma format_2f_two_decimals: "format_2f x = two_decimals x"
proof (cases x)
  case (PyNum negative m)
  let ?h = "hundredths m"
  have d: "?h mod 100 div 10 = ?h div 10 mod 10"
    by (simp add: mod_mult2_eq [of ?h 10 10, simplified])
  have "?h div 10 mod 10 < 10"
    by simp
  then have e1: "digit_char (?h mod 100 div 10) = digit_of (?h div 10 mod 10)"
    by (simp only: d digit_char_digit_of)
  have "?h mod 10 < 10"
    by simp
  then have e2: "digit_char (?h mod 10) = digit_of (?h mod 10)"
    by (rule digit_char_digit_of)
  have "format_2f (PyNum negative m) =
      (if negative then ''-'' else []) @ decimal (?h div 100) @ ''.'' @
      [digit_char (?h mod 100 div 10), digit_char (?h mod 10)]"
    by (simp only: format_2f.simps Let_def round_half_even_hundredths str_nat_decimal)
  also have "\<dots> = two_decimals (PyNum negative m)"
    by (simp only: two_decimals.simps e1 e2)
  finally show ?thesis
    by (simp only: PyNum)
qed

lemma str_join_blank_line:
  "str_join [CHR 0x0A, CHR 0x0A] xs = blank_line_separated xs"
  by (induction "[CHR 0x0A, CHR 0x0A]" xs rule: str_join.induct)
     (simp_all add: blank_line_separated_def)

lemma source_line_entry:
  "json_loads w (doc_metadata d) = Inr metadata \<Longrightarrow> map_of metadata ''source'' = Some src \<Longrightarrow>
     source_line i src (map_of metadata ''page'')
       (case doc_similarity d of None \<Rightarrow> PyNum False 0 | Some x \<Rightarrow> x) =
     attribution_entry w i d"
  by (simp add: source_line_def attribution_entry_def str_nat_decimal py_str_shown
      format_2f_two_decimals del: str_nat.simps format_2f.simps two_decimals.simps
      split: option.splits)

lemma not_attributable_failure:
  "\<not> attributable w d \<Longrightarrow>
     sources_loop w i (d # ds) = ([], first_failure w (d # ds))"
  by (simp add: attributable_def first_failure_def split: sum.splits option.splits)

lemma attributableD:
  "attributable w d \<Longrightarrow>
     \<exists>metadata src. json_loads w (doc_metadata d) = Inr metadata \<and>
       map_of metadata ''source'' = Some src"
  by (simp add: attributable_def split: sum.splits option.splits)

lemma sources_loop_listing:
  "sources_loop w i docs =
     (attribution_entries w i (takeWhile (attributable w) docs),
      first_failure w (dropWhile (attributable w) docs))"
proof (induction docs arbitrary: i)
  case Nil
  then show ?case by (simp add: first_failure_def)
next
  case (Cons d ds)
  show ?case
  proof (cases "attributable w d")
    case False
    then show ?thesis
      using not_attributable_failure [of w d i ds] by simp
  next
    case True
    then obtain metadata src where m: "json_loads w (doc_metadata d) = Inr metadata"
        "map_of metadata ''source'' = Some src"
      using attributableD by blast
    from source_line_entry [OF m] m True Cons [of "i + 1"] show ?thesis
      by simp
  qed
qed

lemma decimal_value_snoc: "decimal_value (t @ [c]) = 10 * decimal_value t + digit_value c"
  by (simp add: decimal_value_def)

lemma digit_value_table:
  "digit_value (digit_of 0) = 0" "digit_value (digit_of 1) = 1" "digit_value (digit_of 2) = 2"
  "digit_value (digit_of 3) = 3" "digit_value (digit_of 4) = 4" "digit_value (digit_of 5) = 5"
  "digit_value (digit_of 6) = 6" "digit_value (digit_of 7) = 7" "digit_value (digit_of 8) = 8"
  "digit_value (digit_of 9) = 9"
  by code_simp+

lemma digit_value_digit_of: "d < 10 \<Longrightarrow> digit_value (digit_of d) = d"
proof -
  assume "d < 10"
  then have "d = 0 \<or> d = 1 \<or> d = 2 \<or> d = 3 \<or> d = 4 \<or> d = 5 \<or> d = 6 \<or> d = 7 \<or> d = 8 \<or> d = 9"
    by arith
  then show ?thesis
    using digit_value_table by (elim disjE) simp_all
qed

lemma decimal_reads_back: "decimal_value (decimal n) = n"
proof (induction n rule: less_induct)
  case (less n)
  show ?case
  proof (cases "n < 10")
    case True
    then show ?thesis
      by (subst decimal_step) (simp add: decimal_value_def digit_value_digit_of)
  next
    case False
    then have "n div 10 < n" by simp
    from less [OF this] False show ?thesis
      by (subst decimal_step) (simp add: decimal_value_snoc digit_value_digit_of)
  qed
qed

lemma hundredths_nearest: "\<bar>of_nat (hundredths x) - \<bar>x\<bar> * 100\<bar> \<le> 1 / 2"
proof -
  have "0 \<le> round_half_even (\<bar>x\<bar> * 100)"
  proof -
    have "0 \<le> \<lfloor>\<bar>x\<bar> * 100\<rfloor>" by simp
    then show ?thesis
      by (simp add: round_half_even_def Let_def)
  qed
  then have "rat_of_nat (hundredths x) = of_int (round_half_even (\<bar>x\<bar> * 100))"
    by (simp add: round_half_even_hundredths [symmetric])
  then show ?thesis
    using round_half_even_near [of "\<bar>x\<bar> * 100"] by simp
qed

lemma round_half_even_tie:
  "\<bar>of_int (round_half_even y) - y\<bar> = 1 / 2 \<Longrightarrow> even (round_half_even y)"
proof -
  assume t: "\<bar>of_int (round_half_even y) - y\<bar> = 1 / 2"
  let ?f = "\<lfloor>y\<rfloor>"
  have a: "of_int ?f \<le> y" and b: "y < of_int ?f + 1"
    by linarith+
  consider (lo) "y - of_int ?f < 1 / 2" | (hi) "1 / 2 < y - of_int ?f"
    | (tie) "y - of_int ?f = 1 / 2"
    by linarith
  then show ?thesis
  proof cases
    case lo
    then have "round_half_even y = ?f"
      by (simp add: round_half_even_def Let_def)
    with t lo a show ?thesis by simp
  next
    case hi
    then have n: "\<not> y - of_int ?f < 1 / 2" by simp
    with hi have "round_half_even y = ?f + 1"
      by (simp add: round_half_even_def Let_def)
    with t hi b show ?thesis by simp
  next
    case tie
    then have n: "\<not> y - of_int ?f < 1 / 2" "\<not> 1 / 2 < y - of_int ?f" by simp_all
    then show ?thesis
      unfolding round_half_even_def Let_def by simp
  qed
qed

lemma hundredths_tie_even:
  "\<bar>of_nat (hundredths x) - \<bar>x\<bar> * 100\<bar> = 1 / 2 \<Longrightarrow> even (hundredths x)"
proof -
  assume t: "\<bar>of_nat (hundredths x) - \<bar>x\<bar> * 100\<bar> = 1 / 2"
  have p: "0 \<le> round_half_even (\<bar>x\<bar> * 100)"
  proof -
    have "0 \<le> \<lfloor>\<bar>x\<bar> * 100\<rfloor>" by simp
    then show ?thesis
      by (simp add: round_half_even_def Let_def)
  qed
  then have e: "rat_of_nat (hundredths x) = of_int (round_half_even (\<bar>x\<bar> * 100))"
    by (simp add: round_half_even_hundredths [symmetric])
  with t have "even (round_half_even (\<bar>x\<bar> * 100))"
    using round_half_even_tie [of "\<bar>x\<bar> * 100"] by simp
  with p show ?thesis
    by (simp add: round_half_even_hundredths [symmetric] even_nat_iff)
qed

lemma query_stream_listing:
  assumes r: "fst (retrieve_relevant_chunks w q (Some 3) s) = Inr docs"
    and n: "docs \<noteq> []"
    and g: "astream w template (blank_line_separated (map doc_content docs)) q = (fragments, None)"
  shows "query_stream w q s =
     ((fragments @ [sources_header] @
         attribution_entries w 1 (takeWhile (attributable w) docs),
       first_failure w (dropWhile (attributable w) docs)),
      record_call (LlmStream template (blank_line_separated (map doc_content docs)) q)
        (snd (retrieve_relevant_chunks w q (Some 3) s)))"
  using n g
  by (simp add: query_stream_unfold [OF r] str_join_blank_line sources_loop_listing)

text \<open>
  C6: when retrieval gives matches and the generation stream ends normally, the model was
  called with the contents of the matches, in retrieval order, separated by blank lines,
  and \<open>query_stream\<close> yields the fragments of the stream, then the sources header, then
  one entry per match in retrieval order: its number, its source path, its page or \<open>N/A\<close>,
  and its own similarity score with two decimal places. The listing reaches every match and
  the operation returns, unless the metadata of a match does not decode or names no source:
  the listing stops before that match, with the exception.
\<close>

theorem query_stream_attribution:
  "fst (retrieve_relevant_chunks w question (Some 3) s) = Inr docs \<Longrightarrow>
   docs \<noteq> [] \<Longrightarrow>
   astream w template (blank_line_separated (map doc_content docs)) question =
     (fragments, None) \<Longrightarrow>
     calls (snd (query_stream w question s)) =
       calls (snd (retrieve_relevant_chunks w question (Some 3) s)) @
       [LlmStream template (blank_line_separated (map doc_content docs)) question] \<and>
     fst (query_stream w question s) =
       (fragments @
        [[CHR 0x0A, CHR 0x0A, CHR 0xF0, CHR 0x9F, CHR 0x93, CHR 0x9A] @ '' **Sources:**'' @
         [CHR 0x0A]] @
        attribution_entries w 1 (takeWhile (attributable w) docs),
        first_failure w (dropWhile (attributable w) docs)) \<and>
     (list_all (attributable w) docs \<longrightarrow>
        fst (query_stream w question s) =
          (fragments @
           [[CHR 0x0A, CHR 0x0A, CHR 0xF0, CHR 0x9F, CHR 0x93, CHR 0x9A] @ '' **Sources:**'' @
            [CHR 0x0A]] @
           attribution_entries w 1 docs, None)) \<and>
     list_all (\<lambda>d. doc_similarity d \<noteq> None) docs \<and>
     (\<forall>n. decimal_value (decimal n) = n) \<and>
     (\<forall>x. \<bar>of_nat (hundredths x) - \<bar>x\<bar> * 100\<bar> \<le> 1 / 2) \<and>
     (\<forall>x. \<bar>of_nat (hundredths x) - \<bar>x\<bar> * 100\<bar> = 1 / 2 \<longrightarrow> even (hundredths x))"
proof -
  assume r: "fst (retrieve_relevant_chunks w question (Some 3) s) = Inr docs"
    and n: "docs \<noteq> []"
    and g: "astream w template (blank_line_separated (map doc_content docs)) question =
     (fragments, None)"
  note q = query_stream_listing [OF r n g]
  have h: "sources_header =
      [CHR 0x0A, CHR 0x0A, CHR 0xF0, CHR 0x9F, CHR 0x93, CHR 0x9A] @ '' **Sources:**'' @
      [CHR 0x0A]"
    by (simp add: sources_header_def)
  have c: "calls (snd (query_stream w question s)) =
       calls (snd (retrieve_relevant_chunks w question (Some 3) s)) @
       [LlmStream template (blank_line_separated (map doc_content docs)) question]"
    by (simp add: q)
  have y: "fst (query_stream w question s) =
       (fragments @
        [[CHR 0x0A, CHR 0x0A, CHR 0xF0, CHR 0x9F, CHR 0x93, CHR 0x9A] @ '' **Sources:**'' @
         [CHR 0x0A]] @
        attribution_entries w 1 (takeWhile (attributable w) docs),
        first_failure w (dropWhile (attributable w) docs))"
    by (simp add: q h)
  have a: "list_all (attributable w) docs \<longrightarrow>
        fst (query_stream w question s) =
          (fragments @
           [[CHR 0x0A, CHR 0x0A, CHR 0xF0, CHR 0x9F, CHR 0x93, CHR 0x9A] @ '' **Sources:**'' @
            [CHR 0x0A]] @
           attribution_entries w 1 docs, None)"
  proof
    assume l: "list_all (attributable w) docs"
    then have "takeWhile (attributable w) docs = docs" "dropWhile (attributable w) docs = []"
      by (simp_all add: list_all_iff)
    with y show "fst (query_stream w question s) =
          (fragments @
           [[CHR 0x0A, CHR 0x0A, CHR 0xF0, CHR 0x9F, CHR 0x93, CHR 0x9A] @ '' **Sources:**'' @
            [CHR 0x0A]] @
           attribution_entries w 1 docs, None)"
      by (simp add: first_failure_def)
  qed
  from c y a retrieved_have_similarity [OF r] decimal_reads_back hundredths_nearest
    hundredths_tie_even
  show ?thesis
    by blast
qed

lemma format_2f_examples:
  "format_2f (PyNum False 0) = ''0.00''"
  "format_2f (PyNum True 0) = ''-0.00''"
  "format_2f (PyNum False (1 / 8)) = ''0.12''"
  "format_2f (PyNum False (3 / 8)) = ''0.38''"
  "format_2f (PyNum True (1 / 1024)) = ''-0.00''"
  "format_2f (PyNum False (25 / 2)) = ''12.50''"
  "format_2f (PyNum False 1) = ''1.00''"
  by code_simp+

text \<open>
  A record written by ingestion is attributable, whenever the decoder gives back the
  dictionary that was serialised.
\<close>

lemma ingested_metadata_attributable:
  "json_loads w (json_dumps w (build_metadata src i c)) = Inr (build_metadata src i c) \<Longrightarrow>
   doc_metadata d = json_dumps w (build_metadata src i c) \<Longrightarrow> attributable w d"
  by (simp add: attributable_def build_metadata_def)

lemma json_retrieve:
  "fst (retrieve_relevant_chunks json_world ''What is RAG?'' (Some 3) json_store) =
     Inr json_matches"
  by (simp add: retrieve_relevant_chunks_fst retrieve_try_def table_select_count_execute_def
      rpc_match_documents_execute_def Let_def json_world_def sample_world_def json_store_def
      json_matches_def)

lemma json_texts_differ: "json_text_b \<noteq> json_text_a"
  by (simp add: json_text_a_def json_text_b_def)

lemma json_attributable: "list_all (attributable json_world) json_matches"
  by (simp add: json_matches_def attributable_def json_world_def json_sample_loads_def
      json_texts_differ)

lemma decimal_digits:
  "decimal 0 = ''0''" "decimal 1 = ''1''" "decimal 2 = ''2''"
  by (subst decimal_step, simp add: digit_of_def)+

lemma decimal_successors:
  "decimal (Suc 0) = ''1''" "decimal (Suc (Suc 0)) = ''2''"
  using decimal_digits by (simp_all add: numeral_2_eq_2)

lemma json_notation:
  "two_decimals (PyNum False (7 / 8)) = ''0.88''"
  "two_decimals (PyNum True (1 / 8)) = ''-0.12''"
  by code_simp+

lemma json_entries:
  "attribution_entries json_world 1 json_matches =
     [CHR 0x0A # ''1. uploads/a.txt (page 0, similarity: 0.88)'',
      CHR 0x0A # ''2. uploads/b.pdf (page N/A, similarity: -0.12)'']"
  by (simp add: json_matches_def attribution_entry_def json_world_def json_sample_loads_def
      json_texts_differ json_notation decimal_digits decimal_successors
      del: two_decimals.simps)

theorem query_stream_attribution_witness:
  "fst (retrieve_relevant_chunks json_world ''What is RAG?'' (Some 3) json_store) =
     Inr json_matches \<and>
   json_matches \<noteq> [] \<and>
   blank_line_separated (map doc_content json_matches) =
     ''RAG stands for Retrieval-Augmented Generation.'' @ [CHR 0x0A, CHR 0x0A] @ ''Second chunk.'' \<and>
   astream json_world template (blank_line_separated (map doc_content json_matches))
     ''What is RAG?'' =
     ([''RAG is '', ''retrieval-augmented generation.''], None) \<and>
   list_all (attributable json_world) json_matches \<and>
   fst (query_stream json_world ''What is RAG?'' json_store) =
     ([''RAG is '', ''retrieval-augmented generation.'',
       [CHR 0x0A, CHR 0x0A, CHR 0xF0, CHR 0x9F, CHR 0x93, CHR 0x9A] @ '' **Sources:**'' @
       [CHR 0x0A],
       CHR 0x0A # ''1. uploads/a.txt (page 0, similarity: 0.88)'',
       CHR 0x0A # ''2. uploads/b.pdf (page N/A, similarity: -0.12)''], None)"
proof -
  have n: "json_matches \<noteq> []"
    by (simp add: json_matches_def)
  have j: "blank_line_separated (map doc_content json_matches) =
      ''RAG stands for Retrieval-Augmented Generation.'' @ [CHR 0x0A, CHR 0x0A] @ ''Second chunk.''"
    by (simp add: json_matches_def blank_line_separated_def)
  have g: "astream json_world template (blank_line_separated (map doc_content json_matches))
      ''What is RAG?'' = ([''RAG is '', ''retrieval-augmented generation.''], None)"
    by (simp add: json_world_def sample_world_def)
  note t = query_stream_attribution [OF json_retrieve n g, THEN conjunct2, THEN conjunct2,
      THEN conjunct1, THEN mp, OF json_attributable]
  from t json_retrieve n j g json_attributable json_entries show ?thesis
    by simp
qed

end
